theory Spec2Isabelle
  imports Main "HOL-Library.Word" "HOL-Library.Sublist"
begin

section \<open>JavaScript values used by the application\<close>

text \<open>
  A JavaScript string is a sequence of 16-bit code units. The distinction from a byte
  string matters here: \<open>btoa\<close> throws on every code unit above 255, and the
  fingerprint function catches exactly that failure.
\<close>

type_synonym jsstring = "16 word list"

definition js :: "string \<Rightarrow> jsstring" where
  "js = map of_char"

text \<open>
  Exceptions are values. The message of an engine-raised error is the engine's own
  text; the program reads it in one place only (the catch of \<open>handleSubmit\<close>).
\<close>

datatype error_name = InvalidCharacterError | TypeError | SyntaxError | Error

datatype js_error = Thrown error_name jsstring

fun message :: "js_error \<Rightarrow> jsstring" where
  "message (Thrown n m) = m"

text \<open>\<open>String(n)\<close> for an integral number (decimal digits, a leading minus sign).\<close>

fun dec_digits :: "nat \<Rightarrow> string" where
  "dec_digits n =
     (if n < 10 then [''0123456789'' ! n]
      else dec_digits (n div 10) @ [''0123456789'' ! (n mod 10)])"

declare dec_digits.simps [simp del]

definition Number_toString :: "int \<Rightarrow> jsstring" where
  "Number_toString i =
     js (if i < 0 then CHR ''-'' # dec_digits (nat (- i)) else dec_digits (nat i))"

definition Boolean_toString :: "bool \<Rightarrow> jsstring" where
  "Boolean_toString b = js (if b then ''true'' else ''false'')"

text \<open>\<open>Array.prototype.join\<close> on an array of strings.\<close>

fun join :: "jsstring \<Rightarrow> jsstring list \<Rightarrow> jsstring" where
  "join sep [] = []"
| "join sep [x] = x"
| "join sep (x # y # ys) = x @ sep @ join sep (y # ys)"

subsection \<open>\<open>btoa\<close>\<close>

definition b64_alphabet :: string where
  "b64_alphabet = ''ABCDEFGHIJKLMNOPQRSTUVWXYZabcdefghijklmnopqrstuvwxyz0123456789+/''"

definition b64_digit :: "nat \<Rightarrow> char" where
  "b64_digit n = b64_alphabet ! (n mod 64)"

fun b64_encode :: "nat list \<Rightarrow> string" where
  "b64_encode [] = []"
| "b64_encode [a] =
     [b64_digit (a div 4), b64_digit ((a mod 4) * 16), CHR ''='', CHR ''='']"
| "b64_encode [a, b] =
     [b64_digit (a div 4), b64_digit ((a mod 4) * 16 + b div 16),
      b64_digit ((b mod 16) * 4), CHR ''='']"
| "b64_encode (a # b # c # rest) =
     [b64_digit (a div 4), b64_digit ((a mod 4) * 16 + b div 16),
      b64_digit ((b mod 16) * 4 + c div 64), b64_digit (c mod 64)] @ b64_encode rest"

text \<open>
  \<open>btoa\<close> encodes a string of code units below 256 and throws an
  \<open>InvalidCharacterError\<close> on any other string.
\<close>

definition btoa :: "jsstring \<Rightarrow> js_error + jsstring" where
  "btoa s =
     (if list_ex (\<lambda>c. 255 < c) s
      then Inl (Thrown InvalidCharacterError (js ''Invalid character''))
      else Inr (js (b64_encode (map unat s))))"

section \<open>The device fingerprint\<close>

text \<open>
  The browser attributes either revision of \<open>getDeviceFingerprint\<close> reads.
  \<open>hardwareConcurrency\<close> is \<open>None\<close> where the browser does not define it;
  \<open>chrome\<close> is the truthiness of \<open>window.chrome\<close>; \<open>timezoneOffset\<close> is
  \<open>new Date().getTimezoneOffset()\<close>. The numeric attributes are integral.
\<close>

record env =
  userAgent :: jsstring
  platform :: jsstring
  language :: jsstring
  hardwareConcurrency :: "nat option"
  width :: int
  height :: int
  availWidth :: int
  availHeight :: int
  colorDepth :: int
  timezoneOffset :: int
  chrome :: bool

text \<open>The source holds two revisions of \<open>App.tsx\<close>.\<close>

datatype variant = Variant1 | Variant2

fun idString :: "variant \<Rightarrow> env \<Rightarrow> jsstring" where
  "idString Variant1 e =
     join (js ''|'')
       [userAgent e,
        platform e,
        (case hardwareConcurrency e of
           None \<Rightarrow> js ''unknown''
         | Some n \<Rightarrow> if n = 0 then js ''unknown'' else Number_toString (int n)),
        Number_toString (width e) @ js ''x'' @ Number_toString (height e),
        Number_toString (availWidth e) @ js ''x'' @ Number_toString (availHeight e),
        Number_toString (timezoneOffset e),
        js ''v1'']"
| "idString Variant2 e =
     join (js ''|'')
       [userAgent e,
        language e,
        Number_toString (colorDepth e),
        Number_toString (width e) @ js ''x'' @ Number_toString (height e),
        Number_toString (timezoneOffset e),
        Boolean_toString (chrome e)]"

text \<open>
  The character class of revision 1 is \<open>[^a-zA-Z0-0]\<close>: the range \<open>0-0\<close> holds the
  digit zero alone, so the replacement keeps the ASCII letters and \<open>0\<close>.
\<close>

definition kept_by_class :: "16 word \<Rightarrow> bool" where
  "kept_by_class c \<longleftrightarrow>
     (0x61 \<le> c \<and> c \<le> 0x7A) \<or> (0x41 \<le> c \<and> c \<le> 0x5A) \<or> (0x30 \<le> c \<and> c \<le> 0x30)"

definition replace_class :: "jsstring \<Rightarrow> jsstring" where
  "replace_class s = filter kept_by_class s"

text \<open>\<open>s.slice(-n)\<close>: the last \<open>n\<close> code units, all of \<open>s\<close> when it is shorter.\<close>

definition slice_last :: "nat \<Rightarrow> jsstring \<Rightarrow> jsstring" where
  "slice_last n s = drop (length s - n) s"

text \<open>\<open>s.slice(0, n)\<close>.\<close>

definition slice_first :: "nat \<Rightarrow> jsstring \<Rightarrow> jsstring" where
  "slice_first n s = take n s"

text \<open>
  \<open>toUpperCase\<close> on the strings it is applied to here, which hold ASCII letters and
  \<open>0\<close> only: a lower-case ASCII letter moves down by 32.
\<close>

definition toUpperCase :: "jsstring \<Rightarrow> jsstring" where
  "toUpperCase s = map (\<lambda>c. if 0x61 \<le> c \<and> c \<le> 0x7A then c - 0x20 else c) s"

fun sentinel :: "variant \<Rightarrow> jsstring" where
  "sentinel Variant1 = js ''ERR-DEVICE-ID''"
| "sentinel Variant2 = js ''UNKNOWN-DEVICE''"

text \<open>
  The \<open>try\<close> block is the \<open>Inr\<close> branch, the \<open>catch\<close> the \<open>Inl\<close> branch:
  whatever \<open>btoa\<close> throws is replaced by the sentinel.
\<close>

fun getDeviceFingerprint :: "variant \<Rightarrow> env \<Rightarrow> js_error + jsstring" where
  "getDeviceFingerprint Variant1 e =
     (case btoa (idString Variant1 e) of
        Inr b \<Rightarrow> Inr (toUpperCase (slice_last 12 (replace_class b)))
      | Inl err \<Rightarrow> Inr (js ''ERR-DEVICE-ID''))"
| "getDeviceFingerprint Variant2 e =
     (case btoa (idString Variant2 e) of
        Inr b \<Rightarrow> Inr (slice_first 16 b)
      | Inl err \<Rightarrow> Inr (js ''UNKNOWN-DEVICE''))"

declare getDeviceFingerprint.simps [simp del]

section \<open>JSON values and the engine's JSON functions\<close>

text \<open>
  A number is an IEEE double: \<open>Finite neg m e\<close> stands for \<open>\<plusminus> m * 2 ^ e\<close>. The
  program never computes with a number; only its truthiness can matter.
\<close>

datatype js_number = Finite bool nat int | Infinity bool

datatype json =
    JNull
  | JBool bool
  | JNum js_number
  | JStr jsstring
  | JArr "json list"
  | JObj "(jsstring \<times> json) list"

text \<open>JavaScript truthiness, as \<open>if (x)\<close>, \<open>!x\<close> and \<open>x && y\<close> read a value.\<close>

fun truthy :: "json \<Rightarrow> bool" where
  "truthy JNull = False"
| "truthy (JBool b) = b"
| "truthy (JNum (Finite neg m e)) = (m \<noteq> 0)"
| "truthy (JNum (Infinity neg)) = True"
| "truthy (JStr s) = (s \<noteq> [])"
| "truthy (JArr xs) = True"
| "truthy (JObj members) = True"

text \<open>
  \<open>JSON.parse\<close> and \<open>JSON.stringify\<close> belong to the engine, not to the repository:
  they are parameters of the model. \<open>JSON_parse\<close> returns the \<open>SyntaxError\<close> it throws.
\<close>

record runtime =
  JSON_parse :: "jsstring \<Rightarrow> js_error + json"
  JSON_stringify :: "json \<Rightarrow> jsstring"

text \<open>
  The read \<open>parsedUser.deviceId\<close>: a \<open>TypeError\<close> on \<open>null\<close>, the own property of an
  object, and \<open>undefined\<close> (\<open>None\<close>) on every other JSON value and on an object
  without the property.
\<close>

fun get_deviceId :: "json \<Rightarrow> js_error + json option" where
  "get_deviceId JNull = Inl (Thrown TypeError (js ''Cannot read properties of null''))"
| "get_deviceId (JObj members) = Inr (map_of members (js ''deviceId''))"
| "get_deviceId (JBool b) = Inr None"
| "get_deviceId (JNum n) = Inr None"
| "get_deviceId (JStr s) = Inr None"
| "get_deviceId (JArr xs) = Inr None"

text \<open>The own property \<open>k\<close> of a parsed object; \<open>None\<close> where there is none.\<close>

fun own_property :: "json \<Rightarrow> string \<Rightarrow> json option" where
  "own_property (JObj members) k = map_of members (js k)"
| "own_property JNull k = None"
| "own_property (JBool b) k = None"
| "own_property (JNum n) k = None"
| "own_property (JStr s) k = None"
| "own_property (JArr xs) k = None"

fun is_string :: "json \<Rightarrow> bool" where
  "is_string (JStr s) = True"
| "is_string JNull = False"
| "is_string (JBool b) = False"
| "is_string (JNum n) = False"
| "is_string (JArr xs) = False"
| "is_string (JObj members) = False"

section \<open>\<open>types.ts\<close>\<close>

datatype Length = Short | Medium | Detailed

fun Length_toString :: "Length \<Rightarrow> jsstring" where
  "Length_toString Short = js ''short''"
| "Length_toString Medium = js ''medium''"
| "Length_toString Detailed = js ''detailed''"

record MovieInfo =
  title :: jsstring
  genre :: jsstring
  director :: jsstring
  keyPlotPoints :: jsstring
  tone :: jsstring
  includeSpoilers :: bool
  recap_length :: Length

datatype AppStatus = IDLE | GENERATING | COMPLETED | ERROR

text \<open>The object literal \<open>{ username, deviceId }\<close> of type \<open>User\<close>.\<close>

definition User :: "jsstring \<Rightarrow> jsstring \<Rightarrow> json" where
  "User name device = JObj [(js ''username'', JStr name), (js ''deviceId'', JStr device)]"

section \<open>The authorization table\<close>

record config =
  pass :: jsstring
  deviceIds :: "jsstring list"

fun AUTHORIZED_USERS :: "variant \<Rightarrow> (jsstring \<times> config) list" where
  "AUTHORIZED_USERS Variant1 =
     [(js ''admin'', \<lparr>pass = js ''0000'', deviceIds = []\<rparr>),
      (js ''editor'', \<lparr>pass = js ''recap2025'', deviceIds = []\<rparr>)]"
| "AUTHORIZED_USERS Variant2 =
     [(js ''admin'',
         \<lparr>pass = js ''0000'',
          deviceIds = [js ''TW96aWxsYS81LjAg'', js ''REVCVUctREVWSUNFLTI='']\<rparr>),
      (js ''demo-user'', \<lparr>pass = js ''moviepass123'', deviceIds = []\<rparr>)]"

text \<open>
  \<open>AUTHORIZED_USERS[username]\<close> is a property read on a plain object: a name the
  table does not hold still finds what \<open>Object.prototype\<close> holds under it (a function or
  an object, truthy, with no \<open>pass\<close>).
\<close>

datatype 'a property = Undefined | Inherited | Own 'a

definition Object_prototype_names :: "string list" where
  "Object_prototype_names =
     [''constructor'', ''__proto__'', ''hasOwnProperty'', ''isPrototypeOf'',
      ''propertyIsEnumerable'', ''toLocaleString'', ''toString'', ''valueOf'',
      ''__defineGetter__'', ''__defineSetter__'', ''__lookupGetter__'',
      ''__lookupSetter__'']"

definition lookup_user :: "variant \<Rightarrow> jsstring \<Rightarrow> config property" where
  "lookup_user v name =
     (case map_of (AUTHORIZED_USERS v) name of
        Some c \<Rightarrow> Own c
      | None \<Rightarrow> if name \<in> set (map js Object_prototype_names) then Inherited else Undefined)"

definition TONES :: "jsstring list" where
  "TONES = map js [''Dramatic'', ''Humorous'', ''Analytical'', ''Fast-paced'',
                   ''Suspenseful'', ''Witty'']"

section \<open>The recap request (\<open>services/geminiService\<close>)\<close>

text \<open>
  The response schema as the request declares it: a node's type, its \<open>description\<close>
  where it has one, the items of an array, the properties of an object and which of them
  are required.
\<close>

datatype schema =
    STRING "string option"
  | ARRAY schema "string option"
  | OBJECT "(string \<times> schema) list" "string list"

record request =
  model :: jsstring
  contents :: jsstring
  responseMimeType :: jsstring
  responseSchema :: schema

definition recapSchema :: schema where
  "recapSchema =
     OBJECT
       [(''tagline'', STRING (Some ''A catchy one-liner for the movie.'')),
        (''summary'', STRING (Some ''The main recap text.'')),
        (''characterAnalysis'', STRING (Some ''Brief analysis of the main characters.'')),
        (''keyTakeaways'',
           ARRAY (STRING None) (Some ''List of important themes or plot devices.'')),
        (''verdict'', STRING (Some ''A final recommendation or rating sentence.''))]
       [''tagline'', ''summary'', ''characterAnalysis'', ''keyTakeaways'', ''verdict'']"

definition nl :: jsstring where
  "nl = [0x0A]"

definition prompt :: "MovieInfo \<Rightarrow> jsstring" where
  "prompt info =
     nl @ js ''    Write a professional movie recap for the following film:''
   @ nl @ js ''    Title: '' @ title info
   @ nl @ js ''    Genre: '' @ genre info
   @ nl @ js ''    Director: '' @ director info
   @ nl @ js ''    Key Plot Points: '' @ keyPlotPoints info
   @ nl @ js ''    Tone: '' @ tone info
   @ nl @ js ''    Include Spoilers: '' @ js (if includeSpoilers info then ''Yes'' else ''No'')
   @ nl @ js ''    Recap Length: '' @ Length_toString (recap_length info)
   @ nl
   @ nl @ js ''    The recap should be engaging and high-quality.''
   @ nl @ js ''  ''"

text \<open>
  What the awaited \<open>generateContent\<close> call comes back with: a rejection, or a response
  whose \<open>text\<close> is a string or \<open>undefined\<close>.
\<close>

datatype api_outcome = Rejected js_error | Response "jsstring option"

text \<open>
  \<open>generateMovieRecap\<close> suspends once, at its \<open>await\<close>. The part before it builds the
  request; the part after it reads the outcome.
\<close>

definition generateMovieRecap_request :: "MovieInfo \<Rightarrow> request" where
  "generateMovieRecap_request info =
     \<lparr>model = js ''gemini-3-flash-preview'',
      contents = prompt info,
      responseMimeType = js ''application/json'',
      responseSchema = recapSchema\<rparr>"

definition generateMovieRecap_resume :: "runtime \<Rightarrow> api_outcome \<Rightarrow> js_error + json" where
  "generateMovieRecap_resume R outcome =
     (case outcome of
        Rejected err \<Rightarrow> Inl err
      | Response raw \<Rightarrow>
          (case raw of
             None \<Rightarrow> Inl (Thrown Error (js ''No response from AI''))
           | Some t \<Rightarrow>
               if t = [] then Inl (Thrown Error (js ''No response from AI''))
               else JSON_parse R t))"

definition generateMovieRecap ::
  "runtime \<Rightarrow> (request \<Rightarrow> api_outcome) \<Rightarrow> MovieInfo \<Rightarrow> js_error + json" where
  "generateMovieRecap R api info =
     generateMovieRecap_resume R (api (generateMovieRecap_request info))"

text \<open>
  What the response schema asks of a value: the type of each node, and of an object the
  required properties, each declared property that is present having its declared type.
\<close>

fun conforms :: "schema \<Rightarrow> json \<Rightarrow> bool" where
  "conforms (STRING d) j = (case j of JStr s \<Rightarrow> True | _ \<Rightarrow> False)"
| "conforms (ARRAY items d) j =
     (case j of JArr xs \<Rightarrow> list_all (conforms items) xs | _ \<Rightarrow> False)"
| "conforms (OBJECT props required) j =
     (case j of
        JObj members \<Rightarrow>
          list_all (\<lambda>k. map_of members (js k) \<noteq> None) required
          \<and> list_all
              (\<lambda>p. case map_of members (js (fst p)) of
                     None \<Rightarrow> True
                   | Some x \<Rightarrow> conforms (snd p) x)
              props
      | _ \<Rightarrow> False)"

section \<open>The application state (\<open>App.tsx\<close>)\<close>

record LoginForm =
  username :: jsstring
  password :: jsstring

text \<open>
  The \<open>useState\<close> cells of \<open>App\<close>, and what the handlers touch outside them: the
  storage item under the key \<open>cinerecap_user\<close>, the clipboard, the requests sent so
  far and the number of them still awaited. \<open>user\<close> and \<open>recap\<close> hold the run-time
  value, \<open>JNull\<close> for \<open>null\<close>: \<open>JSON.parse\<close> decides what it is, the type
  assertion checks nothing.
\<close>

record app =
  user :: json
  loginForm :: LoginForm
  authError :: "jsstring option"
  currentDeviceId :: jsstring
  status :: AppStatus
  error :: "jsstring option"
  recap :: json
  formData :: MovieInfo
  localStorage :: "jsstring option"
  clipboard :: "jsstring option"
  requests :: "request list"
  pending :: nat

text \<open>The first render, over whatever the storage holds.\<close>

definition initial :: "jsstring option \<Rightarrow> app" where
  "initial stored =
     \<lparr>user = JNull,
      loginForm = \<lparr>username = [], password = []\<rparr>,
      authError = None,
      currentDeviceId = [],
      status = IDLE,
      error = None,
      recap = JNull,
      formData =
        \<lparr>title = [], genre = [], director = [], keyPlotPoints = [],
         tone = js ''Dramatic'', includeSpoilers = False, recap_length = Medium\<rparr>,
      localStorage = stored,
      clipboard = None,
      requests = [],
      pending = 0\<rparr>"

text \<open>
  The mount effect. An exception here is not caught by the program: the result is the
  error and no state.
\<close>

definition useEffect :: "variant \<Rightarrow> runtime \<Rightarrow> env \<Rightarrow> app \<Rightarrow> js_error + app" where
  "useEffect v R e s =
     (case getDeviceFingerprint v e of
        Inl err \<Rightarrow> Inl err
      | Inr fingerprint \<Rightarrow>
          (let s1 = s\<lparr>currentDeviceId := fingerprint\<rparr> in
           case localStorage s1 of
             None \<Rightarrow> Inr s1
           | Some savedUser \<Rightarrow>
               if savedUser = [] then Inr s1
               else
                 (case JSON_parse R savedUser of
                    Inl err \<Rightarrow> Inl err
                  | Inr parsedUser \<Rightarrow>
                      (case get_deviceId parsedUser of
                         Inl err \<Rightarrow> Inl err
                       | Inr d \<Rightarrow>
                           if d = Some (JStr fingerprint)
                           then Inr (s1\<lparr>user := parsedUser\<rparr>)
                           else Inr (s1\<lparr>localStorage := None\<rparr>)))))"

definition invalid_credentials :: jsstring where
  "invalid_credentials = js ''Invalid username or password.''"

fun device_not_authorized :: "variant \<Rightarrow> jsstring \<Rightarrow> jsstring \<Rightarrow> jsstring" where
  "device_not_authorized Variant1 device name =
     js ''ACCESS DENIED: This device ('' @ device
     @ js '') is not registered for user '' @ [0x22] @ name @ [0x22] @ js ''.''"
| "device_not_authorized Variant2 device name =
     js ''Unauthorized Device. Please provide this ID to the admin to add it to your account: ''
     @ device"

definition handleLogin :: "variant \<Rightarrow> runtime \<Rightarrow> app \<Rightarrow> app" where
  "handleLogin v R s =
     (let s1 = s\<lparr>authError := None\<rparr>;
          name = username (loginForm s);
          pw = password (loginForm s)
      in case lookup_user v name of
           Undefined \<Rightarrow> s1\<lparr>authError := Some invalid_credentials\<rparr>
         | Inherited \<Rightarrow> s1\<lparr>authError := Some invalid_credentials\<rparr>
         | Own config \<Rightarrow>
             if pass config \<noteq> pw then s1\<lparr>authError := Some invalid_credentials\<rparr>
             else if currentDeviceId s \<notin> set (deviceIds config)
             then s1\<lparr>authError := Some (device_not_authorized v (currentDeviceId s) name)\<rparr>
             else
               (let newUser = User name (currentDeviceId s)
                in s1\<lparr>user := newUser, localStorage := Some (JSON_stringify R newUser)\<rparr>))"

definition handleLogout :: "app \<Rightarrow> app" where
  "handleLogout s =
     s\<lparr>localStorage := None, user := JNull, recap := JNull, status := IDLE,
       loginForm := \<lparr>username = [], password = []\<rparr>\<rparr>"

definition copyDeviceId :: "app \<Rightarrow> app" where
  "copyDeviceId s = s\<lparr>clipboard := Some (currentDeviceId s)\<rparr>"

text \<open>
  \<open>handleSubmit\<close> suspends at the awaited \<open>generateMovieRecap\<close>. Up to there it checks
  the title, sets the status, clears the error and sends the request; when the call
  settles it runs the rest of the \<open>try\<close> block or the \<open>catch\<close>, on the state of that
  moment.
\<close>

definition handleSubmit_begin :: "app \<Rightarrow> app" where
  "handleSubmit_begin s =
     (if title (formData s) = [] then s
      else s\<lparr>status := GENERATING, error := None,
             requests := requests s @ [generateMovieRecap_request (formData s)],
             pending := Suc (pending s)\<rparr>)"

definition handleSubmit_settle :: "runtime \<Rightarrow> api_outcome \<Rightarrow> app \<Rightarrow> app" where
  "handleSubmit_settle R outcome s =
     (case generateMovieRecap_resume R outcome of
        Inr result \<Rightarrow> s\<lparr>recap := result, status := COMPLETED, pending := pending s - 1\<rparr>
      | Inl err \<Rightarrow>
          s\<lparr>error := Some (if message err \<noteq> [] then message err
                           else js ''Failed to generate recap.''),
            status := ERROR, pending := pending s - 1\<rparr>)"

text \<open>A submission that nothing interrupts, against an API \<open>api\<close>.\<close>

definition handleSubmit :: "runtime \<Rightarrow> (request \<Rightarrow> api_outcome) \<Rightarrow> app \<Rightarrow> app" where
  "handleSubmit R api s =
     (if title (formData s) = [] then s
      else handleSubmit_settle R (api (generateMovieRecap_request (formData s)))
             (handleSubmit_begin s))"

definition resetForm :: "app \<Rightarrow> app" where
  "resetForm s = s\<lparr>recap := JNull, status := IDLE\<rparr>"

section \<open>The events of the user interface\<close>

datatype event =
    SetUsername jsstring
  | SetPassword jsstring
  | Login
  | CopyDeviceId
  | Logout
  | SetTitle jsstring
  | SetGenre jsstring
  | SetDirector jsstring
  | SetKeyPlotPoints jsstring
  | SetTone jsstring
  | SetIncludeSpoilers bool
  | Submit
  | Settle api_outcome
  | Reset

text \<open>
  What the rendered page offers. The login screen is rendered while \<open>user\<close> is falsy,
  the studio otherwise; the submit button is disabled while the status is
  \<open>GENERATING\<close>; the reset button stands in the panel rendered for
  \<open>status === COMPLETED && recap\<close>; a pending request settles at any moment.
  The studio reads \<open>user.username.charAt(0)\<close> while rendering, which throws for a
  restored object without a string \<open>username\<close>; \<open>enabled\<close> offers the studio's
  events there all the same, so it offers no less than the page does.
\<close>

fun enabled :: "variant \<Rightarrow> event \<Rightarrow> app \<Rightarrow> bool" where
  "enabled v (SetUsername x) s = (\<not> truthy (user s))"
| "enabled v (SetPassword x) s = (\<not> truthy (user s))"
| "enabled v Login s = (\<not> truthy (user s))"
| "enabled v CopyDeviceId s =
     (\<not> truthy (user s) \<and>
      (case authError s of
         None \<Rightarrow> False
       | Some a \<Rightarrow>
           a \<noteq> [] \<and> (v = Variant1 \<or> sublist (js ''Unauthorized Device'') a)))"
| "enabled v Logout s = truthy (user s)"
| "enabled v (SetTitle x) s = truthy (user s)"
| "enabled v (SetGenre x) s = truthy (user s)"
| "enabled v (SetDirector x) s = truthy (user s)"
| "enabled v (SetKeyPlotPoints x) s = truthy (user s)"
| "enabled v (SetTone x) s = (truthy (user s) \<and> x \<in> set TONES)"
| "enabled v (SetIncludeSpoilers b) s = truthy (user s)"
| "enabled v Submit s = (truthy (user s) \<and> status s \<noteq> GENERATING)"
| "enabled v (Settle outcome) s = (0 < pending s)"
| "enabled v Reset s = (truthy (user s) \<and> status s = COMPLETED \<and> truthy (recap s))"

fun handle :: "variant \<Rightarrow> runtime \<Rightarrow> event \<Rightarrow> app \<Rightarrow> app" where
  "handle v R (SetUsername x) s = s\<lparr>loginForm := (loginForm s)\<lparr>username := x\<rparr>\<rparr>"
| "handle v R (SetPassword x) s = s\<lparr>loginForm := (loginForm s)\<lparr>password := x\<rparr>\<rparr>"
| "handle v R Login s = handleLogin v R s"
| "handle v R CopyDeviceId s = copyDeviceId s"
| "handle v R Logout s = handleLogout s"
| "handle v R (SetTitle x) s = s\<lparr>formData := (formData s)\<lparr>title := x\<rparr>\<rparr>"
| "handle v R (SetGenre x) s = s\<lparr>formData := (formData s)\<lparr>genre := x\<rparr>\<rparr>"
| "handle v R (SetDirector x) s = s\<lparr>formData := (formData s)\<lparr>director := x\<rparr>\<rparr>"
| "handle v R (SetKeyPlotPoints x) s = s\<lparr>formData := (formData s)\<lparr>keyPlotPoints := x\<rparr>\<rparr>"
| "handle v R (SetTone x) s = s\<lparr>formData := (formData s)\<lparr>tone := x\<rparr>\<rparr>"
| "handle v R (SetIncludeSpoilers b) s = s\<lparr>formData := (formData s)\<lparr>includeSpoilers := b\<rparr>\<rparr>"
| "handle v R Submit s = handleSubmit_begin s"
| "handle v R (Settle outcome) s = handleSubmit_settle R outcome s"
| "handle v R Reset s = resetForm s"

text \<open>Running a list of events from a state; \<open>None\<close> when one of them is not offered.\<close>

fun run :: "variant \<Rightarrow> runtime \<Rightarrow> event list \<Rightarrow> app \<Rightarrow> app option" where
  "run v R [] s = Some s"
| "run v R (ev # evs) s = (if enabled v ev s then run v R evs (handle v R ev s) else None)"

text \<open>The states of one page load: the mount effect, then events.\<close>

inductive reachable :: "variant \<Rightarrow> runtime \<Rightarrow> env \<Rightarrow> app \<Rightarrow> bool" for v R e where
  mounted: "useEffect v R e (initial stored) = Inr s \<Longrightarrow> reachable v R e s"
| event: "reachable v R e s \<Longrightarrow> enabled v ev s \<Longrightarrow> reachable v R e (handle v R ev s)"

section \<open>The transitions the specification lists\<close>


section \<open>Concrete inputs\<close>

text \<open>A desktop browser, and the same browser reporting a user agent outside Latin-1.\<close>

definition desktop :: env where
  "desktop =
     \<lparr>userAgent = js ''Mozilla/5.0 (X11; Linux x86_64) Gecko/20100101 Firefox/128.0'',
      platform = js ''Linux x86_64'',
      language = js ''en-US'',
      hardwareConcurrency = Some 8,
      width = 1920, height = 1080, availWidth = 1920, availHeight = 1053,
      colorDepth = 24, timezoneOffset = - 60, chrome = False\<rparr>"

definition wide_agent :: env where
  "wide_agent = desktop\<lparr>userAgent := [0x4E2D, 0x6587]\<rparr>"

text \<open>
  A session stored on this device under revision 1, and one stored on another device.
\<close>

definition session_text :: jsstring where
  \<open>session_text = js ''{"username":"admin","deviceId":"WNTNLTYWFHYX"}''\<close>

definition stale_text :: jsstring where
  \<open>stale_text = js ''{"username":"admin","deviceId":"TW96aWxsYS81LjAg"}''\<close>

text \<open>Three response texts: two that match the response schema, one that is not JSON.\<close>

definition empty_recap_text :: jsstring where
  \<open>empty_recap_text =
     js ''{"tagline":"","summary":"","characterAnalysis":"","keyTakeaways":[],"verdict":""}''\<close>

definition empty_recap :: json where
  "empty_recap =
     JObj [(js ''tagline'', JStr []), (js ''summary'', JStr []),
           (js ''characterAnalysis'', JStr []), (js ''keyTakeaways'', JArr []),
           (js ''verdict'', JStr [])]"

definition inception_recap_text :: jsstring where
  \<open>inception_recap_text =
     js ''{"tagline":"Dreams within dreams","summary":"A thief plants an idea.","characterAnalysis":"Cobb cannot let go.","keyTakeaways":["Reality is fragile"],"verdict":"Watch it twice."}''\<close>

definition inception_recap :: json where
  "inception_recap =
     JObj [(js ''tagline'', JStr (js ''Dreams within dreams'')),
           (js ''summary'', JStr (js ''A thief plants an idea.'')),
           (js ''characterAnalysis'', JStr (js ''Cobb cannot let go.'')),
           (js ''keyTakeaways'', JArr [JStr (js ''Reality is fragile'')]),
           (js ''verdict'', JStr (js ''Watch it twice.''))]"

definition apology :: jsstring where
  "apology = js ''Sorry, I cannot help with that.''"

text \<open>
  A finite excerpt of an engine's \<open>JSON.parse\<close> and \<open>JSON.stringify\<close>: the listed
  texts parse to the listed values and every other text is rejected; the listed values
  print as the listed texts. It stands for the engine where a concrete input is
  evaluated, and is read on the listed entries only.
\<close>

definition parse_table :: "(jsstring \<times> json) list \<Rightarrow> jsstring \<Rightarrow> js_error + json" where
  "parse_table entries raw =
     (case map_of entries raw of
        Some v \<Rightarrow> Inr v
      | None \<Rightarrow> Inl (Thrown SyntaxError (js ''Unexpected token'')))"

definition stringify_table :: "(json \<times> jsstring) list \<Rightarrow> json \<Rightarrow> jsstring" where
  "stringify_table entries v = (case map_of entries v of Some raw \<Rightarrow> raw | None \<Rightarrow> [])"

definition engine :: runtime where
  "engine =
     \<lparr>JSON_parse =
        parse_table
          [(session_text, User (js ''admin'') (js ''WNTNLTYWFHYX'')),
           (stale_text, User (js ''admin'') (js ''TW96aWxsYS81LjAg'')),
           (empty_recap_text, empty_recap),
           (inception_recap_text, inception_recap)],
      JSON_stringify =
        stringify_table
          [(User (js ''admin'') (js ''WNTNLTYWFHYX''), session_text),
           (User (js ''admin'') (js ''TW96aWxsYS81LjAg''), stale_text)]\<rparr>"

text \<open>The request of the specification's example, and states of a session.\<close>

definition inception :: MovieInfo where
  "inception =
     \<lparr>title = js ''Inception'', genre = [], director = [], keyPlotPoints = [],
      tone = js ''Dramatic'', includeSpoilers = False, recap_length = Short\<rparr>"

definition attempt :: "jsstring \<Rightarrow> jsstring \<Rightarrow> app" where
  "attempt name pw =
     (initial None)\<lparr>currentDeviceId := js ''WNTNLTYWFHYX'',
                     loginForm := \<lparr>username = name, password = pw\<rparr>\<rparr>"

definition restored :: app where
  "restored =
     (initial (Some session_text))
       \<lparr>currentDeviceId := js ''WNTNLTYWFHYX'',
        user := User (js ''admin'') (js ''WNTNLTYWFHYX'')\<rparr>"

definition ready :: app where
  "ready = restored\<lparr>formData := (formData restored)\<lparr>title := js ''Inception''\<rparr>\<rparr>"




section \<open>Strings and fingerprints: basic facts\<close>

lemma unat_of_char: "unat (of_char c :: 16 word) = of_char c"
proof -
  have "(of_char c :: 16 word) = word_of_nat (of_char c)"
    by (simp add: of_nat_of_char)
  moreover have "(of_char c :: nat) < 2 ^ 16"
    by (rule less_trans [OF nat_of_char_less_256]) simp
  ultimately show ?thesis
    by (simp add: unat_of_nat)
qed

lemma js_eq_iff: "js a = js b \<longleftrightarrow> a = b"
proof
  assume "js a = js b"
  then have "map unat (js a) = map unat (js b)"
    by simp
  then have "map (of_char :: char \<Rightarrow> nat) a = map of_char b"
    by (simp add: js_def unat_of_char cong: map_cong)
  then show "a = b"
    by (simp add: inj_map_eq_map inj_of_char)
qed simp

lemma getDeviceFingerprint_returns: "\<exists>fp. getDeviceFingerprint v e = Inr fp"
  by (cases v) (auto simp: getDeviceFingerprint.simps split: sum.splits)

lemma getDeviceFingerprint_catch:
  "btoa (idString v e) = Inl err \<Longrightarrow> getDeviceFingerprint v e = Inr (sentinel v)"
  by (cases v) (auto simp: getDeviceFingerprint.simps)

lemma desktop_fingerprint1: "getDeviceFingerprint Variant1 desktop = Inr (js ''WNTNLTYWFHYX'')"
  by code_simp

lemma desktop_fingerprint2:
  "getDeviceFingerprint Variant2 desktop = Inr (js ''TW96aWxsYS81LjAg'')"
  by code_simp

lemma wide_agent_btoa:
  "btoa (idString v wide_agent) = Inl (Thrown InvalidCharacterError (js ''Invalid character''))"
  by (cases v) (simp_all add: btoa_def wide_agent_def)

section \<open>The fingerprint function\<close>

text \<open>
  Claim C7. \<open>getDeviceFingerprint\<close> is deterministic: its result is a function of the
  browser attributes it reads and of nothing else. Two environments that agree on the
  attributes a revision reads (user agent, platform, hardware concurrency, screen and
  available geometry, timezone offset for revision 1; user agent, language, colour
  depth, screen geometry, timezone offset, the chrome flag for revision 2) give the same
  fingerprint, whatever else differs between them.
\<close>

theorem getDeviceFingerprint_deterministic:
  "(userAgent a = userAgent b \<and> platform a = platform b \<and>
    hardwareConcurrency a = hardwareConcurrency b \<and>
    width a = width b \<and> height a = height b \<and>
    availWidth a = availWidth b \<and> availHeight a = availHeight b \<and>
    timezoneOffset a = timezoneOffset b
    \<longrightarrow> getDeviceFingerprint Variant1 a = getDeviceFingerprint Variant1 b) \<and>
   (userAgent a = userAgent b \<and> language a = language b \<and>
    colorDepth a = colorDepth b \<and>
    width a = width b \<and> height a = height b \<and>
    timezoneOffset a = timezoneOffset b \<and> chrome a = chrome b
    \<longrightarrow> getDeviceFingerprint Variant2 a = getDeviceFingerprint Variant2 b)"
  by (simp add: getDeviceFingerprint.simps)

text \<open>
  An instance: revision 1 does not read the language, revision 2 does not read the
  platform.
\<close>

theorem getDeviceFingerprint_deterministic_witness:
  "getDeviceFingerprint Variant1 desktop
     = getDeviceFingerprint Variant1 (desktop\<lparr>language := js ''de-DE''\<rparr>) \<and>
   getDeviceFingerprint Variant2 desktop
     = getDeviceFingerprint Variant2 (desktop\<lparr>platform := js ''Win32''\<rparr>)"
proof
  have "userAgent desktop = userAgent (desktop\<lparr>language := js ''de-DE''\<rparr>) \<and>
        platform desktop = platform (desktop\<lparr>language := js ''de-DE''\<rparr>) \<and>
        hardwareConcurrency desktop
          = hardwareConcurrency (desktop\<lparr>language := js ''de-DE''\<rparr>) \<and>
        width desktop = width (desktop\<lparr>language := js ''de-DE''\<rparr>) \<and>
        height desktop = height (desktop\<lparr>language := js ''de-DE''\<rparr>) \<and>
        availWidth desktop = availWidth (desktop\<lparr>language := js ''de-DE''\<rparr>) \<and>
        availHeight desktop = availHeight (desktop\<lparr>language := js ''de-DE''\<rparr>) \<and>
        timezoneOffset desktop = timezoneOffset (desktop\<lparr>language := js ''de-DE''\<rparr>)"
    by simp
  with getDeviceFingerprint_deterministic [of desktop "desktop\<lparr>language := js ''de-DE''\<rparr>"]
  show "getDeviceFingerprint Variant1 desktop
     = getDeviceFingerprint Variant1 (desktop\<lparr>language := js ''de-DE''\<rparr>)"
    by blast
next
  have "userAgent desktop = userAgent (desktop\<lparr>platform := js ''Win32''\<rparr>) \<and>
        language desktop = language (desktop\<lparr>platform := js ''Win32''\<rparr>) \<and>
        colorDepth desktop = colorDepth (desktop\<lparr>platform := js ''Win32''\<rparr>) \<and>
        width desktop = width (desktop\<lparr>platform := js ''Win32''\<rparr>) \<and>
        height desktop = height (desktop\<lparr>platform := js ''Win32''\<rparr>) \<and>
        timezoneOffset desktop = timezoneOffset (desktop\<lparr>platform := js ''Win32''\<rparr>) \<and>
        chrome desktop = chrome (desktop\<lparr>platform := js ''Win32''\<rparr>)"
    by simp
  with getDeviceFingerprint_deterministic [of desktop "desktop\<lparr>platform := js ''Win32''\<rparr>"]
  show "getDeviceFingerprint Variant2 desktop
     = getDeviceFingerprint Variant2 (desktop\<lparr>platform := js ''Win32''\<rparr>)"
    by blast
qed

text \<open>
  Claim C8. \<open>getDeviceFingerprint\<close> is total: in every environment it returns a
  string and raises nothing, and whenever the encoding step \<open>btoa\<close> throws, what it
  returns is the revision's fixed sentinel (\<open>ERR-DEVICE-ID\<close> in revision 1,
  \<open>UNKNOWN-DEVICE\<close> in revision 2).
\<close>

theorem getDeviceFingerprint_total:
  "(\<exists>fp. getDeviceFingerprint v e = Inr fp) \<and>
   (\<forall>err. btoa (idString v e) = Inl err \<longrightarrow> getDeviceFingerprint v e = Inr (sentinel v))"
  using getDeviceFingerprint_returns getDeviceFingerprint_catch by blast

text \<open>A user agent with the code units U+4E2D U+6587 makes \<open>btoa\<close> throw.\<close>

theorem getDeviceFingerprint_total_witness:
  "btoa (idString Variant1 wide_agent)
     = Inl (Thrown InvalidCharacterError (js ''Invalid character'')) \<and>
   getDeviceFingerprint Variant1 wide_agent = Inr (js ''ERR-DEVICE-ID'') \<and>
   btoa (idString Variant2 wide_agent)
     = Inl (Thrown InvalidCharacterError (js ''Invalid character'')) \<and>
   getDeviceFingerprint Variant2 wide_agent = Inr (js ''UNKNOWN-DEVICE'')"
proof -
  from getDeviceFingerprint_total [of Variant1 wide_agent] wide_agent_btoa [of Variant1]
  have f1: "getDeviceFingerprint Variant1 wide_agent = Inr (sentinel Variant1)"
    by blast
  from getDeviceFingerprint_total [of Variant2 wide_agent] wide_agent_btoa [of Variant2]
  have f2: "getDeviceFingerprint Variant2 wide_agent = Inr (sentinel Variant2)"
    by blast
  from f1 f2 wide_agent_btoa [of Variant1] wide_agent_btoa [of Variant2]
  show ?thesis by simp
qed

text \<open>
  Claim C9. The two revisions of \<open>getDeviceFingerprint\<close> are not extensionally equal:
  there is an environment on which they return different strings. On the desktop
  browser above, revision 1 returns \<open>WNTNLTYWFHYX\<close> and revision 2 returns
  \<open>TW96aWxsYS81LjAg\<close>.
\<close>

theorem variants_differ:
  "getDeviceFingerprint Variant1 desktop = Inr (js ''WNTNLTYWFHYX'') \<and>
   getDeviceFingerprint Variant2 desktop = Inr (js ''TW96aWxsYS81LjAg'') \<and>
   (\<exists>e. getDeviceFingerprint Variant1 e \<noteq> getDeviceFingerprint Variant2 e)"
proof -
  have "js ''WNTNLTYWFHYX'' \<noteq> js ''TW96aWxsYS81LjAg''"
    by (simp add: js_eq_iff)
  then have "getDeviceFingerprint Variant1 desktop \<noteq> getDeviceFingerprint Variant2 desktop"
    by (simp add: desktop_fingerprint1 desktop_fingerprint2)
  then show ?thesis
    using desktop_fingerprint1 desktop_fingerprint2 by blast
qed

section \<open>Session restore and login\<close>

lemma useEffect_currentDeviceId:
  "useEffect v R e s = Inr s' \<Longrightarrow> getDeviceFingerprint v e = Inr fp \<Longrightarrow> currentDeviceId s' = fp"
  by (auto simp: useEffect_def Let_def split: option.splits sum.splits if_splits)

lemma handleLogin_currentDeviceId: "currentDeviceId (handleLogin v R s) = currentDeviceId s"
  by (simp add: handleLogin_def Let_def split: property.splits)

lemma handle_currentDeviceId: "currentDeviceId (handle v R ev s) = currentDeviceId s"
  by (cases ev)
     (simp_all add: handleLogin_currentDeviceId copyDeviceId_def handleLogout_def
        handleSubmit_begin_def handleSubmit_settle_def resetForm_def split: sum.splits)

text \<open>After the mount effect the state holds the fingerprint, and no handler changes it.\<close>

lemma reachable_currentDeviceId:
  "reachable v R e s \<Longrightarrow> getDeviceFingerprint v e = Inr fp \<Longrightarrow> currentDeviceId s = fp"
  by (induction rule: reachable.induct)
     (simp_all add: useEffect_currentDeviceId handle_currentDeviceId)

lemma get_deviceId_User: "get_deviceId (User name device) = Inr (Some (JStr device))"
  by (simp add: User_def js_eq_iff)

lemma useEffect_user:
  "useEffect v R e (initial stored) = Inr s \<Longrightarrow> truthy (user s) \<Longrightarrow>
   get_deviceId (user s) = Inr (Some (JStr (currentDeviceId s)))"
  by (auto simp: useEffect_def initial_def Let_def split: option.splits sum.splits if_splits)

lemma handle_user:
  "truthy (user (handle v R ev s)) \<Longrightarrow>
   (truthy (user s) \<longrightarrow> get_deviceId (user s) = Inr (Some (JStr (currentDeviceId s)))) \<Longrightarrow>
   get_deviceId (user (handle v R ev s)) = Inr (Some (JStr (currentDeviceId s)))"
  by (cases ev)
     (auto simp: handleLogin_def Let_def get_deviceId_User copyDeviceId_def handleLogout_def
        handleSubmit_begin_def handleSubmit_settle_def resetForm_def
        split: sum.splits property.splits if_splits)

text \<open>
  Throughout a page load, by restore or by login: the session of a logged-in user
  carries the fingerprint of the device.
\<close>

lemma reachable_session:
  "reachable v R e s \<Longrightarrow> truthy (user s) \<Longrightarrow>
   get_deviceId (user s) = Inr (Some (JStr (currentDeviceId s)))"
proof (induction rule: reachable.induct)
  case (mounted stored s)
  then show ?case by (rule useEffect_user)
next
  case (event s ev)
  from handle_user [OF event.prems] event.IH
  show ?case by (simp add: handle_currentDeviceId)
qed

lemma texts_nonempty:
  "session_text \<noteq> []" "stale_text \<noteq> []" "empty_recap_text \<noteq> []"
  "inception_recap_text \<noteq> []" "apology \<noteq> []"
  by (simp_all add: session_text_def stale_text_def empty_recap_text_def
      inception_recap_text_def apology_def js_def)

lemma parse_session_text:
  "JSON_parse engine session_text =
     Inr (JObj [(js ''username'', JStr (js ''admin'')),
                (js ''deviceId'', JStr (js ''WNTNLTYWFHYX''))])"
  by (simp add: engine_def parse_table_def User_def)

lemma parse_stale_text:
  "JSON_parse engine stale_text =
     Inr (JObj [(js ''username'', JStr (js ''admin'')),
                (js ''deviceId'', JStr (js ''TW96aWxsYS81LjAg''))])"
proof -
  have "session_text \<noteq> stale_text"
    by (simp add: session_text_def stale_text_def js_eq_iff)
  then show ?thesis
    by (simp add: engine_def parse_table_def User_def)
qed

text \<open>
  Claim C1. On startup, when the storage holds a session record (a non-empty text that
  parses to an object): if the record's \<open>deviceId\<close> is the freshly computed fingerprint
  the session is restored, the record becoming the user; otherwise (another value, or
  no \<open>deviceId\<close>) the record is removed from the storage and the user stays \<open>null\<close>,
  so the login screen is shown. Consequently, whatever the storage held, a user logged
  in by the restore carries the current device fingerprint as its \<open>deviceId\<close>.
\<close>

theorem session_restore:
  assumes "getDeviceFingerprint v e = Inr fp"
    and "savedUser \<noteq> []"
    and "JSON_parse R savedUser = Inr (JObj members)"
  shows "useEffect v R e (initial (Some savedUser)) =
           Inr (if map_of members (js ''deviceId'') = Some (JStr fp)
                then (initial (Some savedUser))\<lparr>currentDeviceId := fp, user := JObj members\<rparr>
                else (initial (Some savedUser))\<lparr>currentDeviceId := fp, localStorage := None\<rparr>)
         \<and> (\<forall>stored s. useEffect v R e (initial stored) = Inr s \<and> truthy (user s)
               \<longrightarrow> get_deviceId (user s) = Inr (Some (JStr fp)) \<and> currentDeviceId s = fp)"
proof (rule conjI)
  show "useEffect v R e (initial (Some savedUser)) =
           Inr (if map_of members (js ''deviceId'') = Some (JStr fp)
                then (initial (Some savedUser))\<lparr>currentDeviceId := fp, user := JObj members\<rparr>
                else (initial (Some savedUser))\<lparr>currentDeviceId := fp, localStorage := None\<rparr>)"
    using assms by (simp add: useEffect_def initial_def)
next
  show "\<forall>stored s. useEffect v R e (initial stored) = Inr s \<and> truthy (user s)
               \<longrightarrow> get_deviceId (user s) = Inr (Some (JStr fp)) \<and> currentDeviceId s = fp"
    using useEffect_user useEffect_currentDeviceId [OF _ assms(1)] by metis
qed

text \<open>
  On the desktop browser under revision 1: the session stored on this device is
  restored, the session stored on another device is removed.
\<close>

theorem session_restore_witness:
  "useEffect Variant1 engine desktop (initial (Some session_text)) =
     Inr ((initial (Some session_text))
            \<lparr>currentDeviceId := js ''WNTNLTYWFHYX'',
             user := User (js ''admin'') (js ''WNTNLTYWFHYX'')\<rparr>) \<and>
   useEffect Variant1 engine desktop (initial (Some stale_text)) =
     Inr ((initial (Some stale_text))
            \<lparr>currentDeviceId := js ''WNTNLTYWFHYX'', localStorage := None\<rparr>)"
proof -
  from session_restore [OF desktop_fingerprint1 texts_nonempty(1) parse_session_text]
  have a: "useEffect Variant1 engine desktop (initial (Some session_text)) =
     Inr ((initial (Some session_text))
            \<lparr>currentDeviceId := js ''WNTNLTYWFHYX'',
             user := User (js ''admin'') (js ''WNTNLTYWFHYX'')\<rparr>)"
    by (simp add: js_eq_iff User_def)
  from session_restore [OF desktop_fingerprint1 texts_nonempty(2) parse_stale_text]
  have b: "useEffect Variant1 engine desktop (initial (Some stale_text)) =
     Inr ((initial (Some stale_text))
            \<lparr>currentDeviceId := js ''WNTNLTYWFHYX'', localStorage := None\<rparr>)"
    by (simp add: js_eq_iff)
  from a b show ?thesis by (rule conjI)
qed

lemma sublist_device_not_authorized: "sublist fp (device_not_authorized v fp name)"
proof (cases v)
  case Variant1
  then show ?thesis by (simp add: sublist_appendI)
next
  case Variant2
  have "suffix fp
     (js ''Unauthorized Device. Please provide this ID to the admin to add it to your account: ''
      @ fp)"
    by (rule suffix_appendI) simp
  with Variant2 show ?thesis by (simp add: suffix_imp_sublist)
qed

lemma device_not_authorized_distinct: "device_not_authorized v fp name \<noteq> invalid_credentials"
proof
  assume "device_not_authorized v fp name = invalid_credentials"
  then have "hd (device_not_authorized v fp name) = hd invalid_credentials"
    by simp
  then show False
    by (cases v) (simp_all add: invalid_credentials_def js_def)
qed

lemma reachable_attempt: "reachable Variant1 engine desktop (attempt name pw)"
proof -
  let ?s0 = "(initial None)\<lparr>currentDeviceId := js ''WNTNLTYWFHYX''\<rparr>"
  have "useEffect Variant1 engine desktop (initial None) = Inr ?s0"
    by (simp add: useEffect_def desktop_fingerprint1 initial_def)
  then have r0: "reachable Variant1 engine desktop ?s0"
    by (rule reachable.mounted)
  have "enabled Variant1 (SetUsername name) ?s0"
    by (simp add: initial_def)
  with r0 have r1: "reachable Variant1 engine desktop
      (handle Variant1 engine (SetUsername name) ?s0)"
    by (rule reachable.event)
  have "enabled Variant1 (SetPassword pw) (handle Variant1 engine (SetUsername name) ?s0)"
    by (simp add: initial_def)
  with r1 have "reachable Variant1 engine desktop
      (handle Variant1 engine (SetPassword pw)
        (handle Variant1 engine (SetUsername name) ?s0))"
    by (rule reachable.event)
  then show ?thesis
    by (simp add: attempt_def initial_def)
qed

text \<open>
  Claim C2. In any state of a page load, a login whose username is in the authorization
  table and whose password matches, while the device fingerprint is not in that user's
  \<open>deviceIds\<close>, fails with the device-not-authorized message: the message contains the
  computed fingerprint verbatim and is not the invalid-credentials message, the user
  stays as it was and nothing is written to the storage.
\<close>

theorem handleLogin_device_not_authorized:
  assumes "reachable v R e s"
    and "getDeviceFingerprint v e = Inr fp"
    and "map_of (AUTHORIZED_USERS v) (username (loginForm s)) = Some c"
    and "pass c = password (loginForm s)"
    and "fp \<notin> set (deviceIds c)"
  shows "handleLogin v R s =
           s\<lparr>authError := Some (device_not_authorized v fp (username (loginForm s)))\<rparr>
         \<and> sublist fp (device_not_authorized v fp (username (loginForm s)))
         \<and> device_not_authorized v fp (username (loginForm s)) \<noteq> invalid_credentials
         \<and> user (handleLogin v R s) = user s
         \<and> localStorage (handleLogin v R s) = localStorage s"
proof -
  from assms(1,2) have "currentDeviceId s = fp"
    by (rule reachable_currentDeviceId)
  with assms(3,4,5)
  have "handleLogin v R s =
           s\<lparr>authError := Some (device_not_authorized v fp (username (loginForm s)))\<rparr>"
    by (simp add: handleLogin_def lookup_user_def)
  then show ?thesis
    by (simp add: sublist_device_not_authorized device_not_authorized_distinct)
qed

text \<open>
  Revision 1 authorizes no device for \<open>admin\<close>: the right password on the desktop
  browser is answered with the device message.
\<close>

theorem handleLogin_device_not_authorized_witness:
  "handleLogin Variant1 engine (attempt (js ''admin'') (js ''0000'')) =
     (attempt (js ''admin'') (js ''0000''))
       \<lparr>authError :=
          Some (js ''ACCESS DENIED: This device (WNTNLTYWFHYX) is not registered for user ''
                @ [0x22] @ js ''admin'' @ [0x22] @ js ''.'')\<rparr>
   \<and> sublist (js ''WNTNLTYWFHYX'')
        (js ''ACCESS DENIED: This device (WNTNLTYWFHYX) is not registered for user ''
           @ [0x22] @ js ''admin'' @ [0x22] @ js ''.'')
   \<and> user (handleLogin Variant1 engine (attempt (js ''admin'') (js ''0000''))) = JNull
   \<and> localStorage (handleLogin Variant1 engine (attempt (js ''admin'') (js ''0000''))) = None"
proof -
  have t: "map_of (AUTHORIZED_USERS Variant1)
             (username (loginForm (attempt (js ''admin'') (js ''0000''))))
           = Some \<lparr>pass = js ''0000'', deviceIds = []\<rparr>"
    by (simp add: attempt_def)
  have p: "pass \<lparr>pass = js ''0000'', deviceIds = []\<rparr>
           = password (loginForm (attempt (js ''admin'') (js ''0000'')))"
    by (simp add: attempt_def)
  have d: "js ''WNTNLTYWFHYX'' \<notin> set (deviceIds \<lparr>pass = js ''0000'', deviceIds = []\<rparr>)"
    by simp
  from handleLogin_device_not_authorized [OF reachable_attempt desktop_fingerprint1 t p d]
  show ?thesis
    by (simp add: attempt_def initial_def js_def)
qed

text \<open>
  Claim C3. A login whose username is not in the authorization table, or whose password
  differs from the table entry of that username, fails with one and the same result:
  the state with the invalid-credentials message, which does not depend on which of the
  two was wrong. The user stays as it was and nothing is written to the storage.
\<close>

theorem handleLogin_invalid_credentials:
  assumes "map_of (AUTHORIZED_USERS v) (username (loginForm s)) = None
           \<or> (\<exists>c. map_of (AUTHORIZED_USERS v) (username (loginForm s)) = Some c
                   \<and> pass c \<noteq> password (loginForm s))"
  shows "handleLogin v R s = s\<lparr>authError := Some invalid_credentials\<rparr>
         \<and> user (handleLogin v R s) = user s
         \<and> localStorage (handleLogin v R s) = localStorage s"
proof -
  from assms have "handleLogin v R s = s\<lparr>authError := Some invalid_credentials\<rparr>"
    by (auto simp: handleLogin_def lookup_user_def Let_def)
  then show ?thesis by simp
qed

text \<open>
  Under revision 2: an unknown username, a wrong password for \<open>admin\<close>, and a name
  that \<open>Object.prototype\<close> holds.
\<close>

theorem handleLogin_invalid_credentials_witness:
  "handleLogin Variant2 engine (attempt (js ''mallory'') (js ''0000'')) =
     (attempt (js ''mallory'') (js ''0000''))\<lparr>authError := Some invalid_credentials\<rparr>
   \<and> handleLogin Variant2 engine (attempt (js ''admin'') (js ''1234'')) =
     (attempt (js ''admin'') (js ''1234''))\<lparr>authError := Some invalid_credentials\<rparr>
   \<and> handleLogin Variant2 engine (attempt (js ''toString'') (js ''0000'')) =
     (attempt (js ''toString'') (js ''0000''))\<lparr>authError := Some invalid_credentials\<rparr>"
proof -
  have a: "map_of (AUTHORIZED_USERS Variant2)
             (username (loginForm (attempt (js ''mallory'') (js ''0000'')))) = None"
    by (simp add: attempt_def js_eq_iff)
  have b: "\<exists>c. map_of (AUTHORIZED_USERS Variant2)
                 (username (loginForm (attempt (js ''admin'') (js ''1234'')))) = Some c
               \<and> pass c \<noteq> password (loginForm (attempt (js ''admin'') (js ''1234'')))"
    by (simp add: attempt_def js_eq_iff)
  have c: "map_of (AUTHORIZED_USERS Variant2)
             (username (loginForm (attempt (js ''toString'') (js ''0000'')))) = None"
    by (simp add: attempt_def js_eq_iff)
  from handleLogin_invalid_credentials [OF disjI1 [OF a], of engine]
       handleLogin_invalid_credentials [OF disjI2 [OF b], of engine]
       handleLogin_invalid_credentials [OF disjI1 [OF c], of engine]
  show ?thesis by blast
qed

section \<open>The recap request\<close>

lemma generateMovieRecap_resume_empty:
  "raw = None \<or> raw = Some [] \<Longrightarrow>
   generateMovieRecap_resume R (Response raw) = Inl (Thrown Error (js ''No response from AI''))"
  by (auto simp: generateMovieRecap_resume_def)

lemma generateMovieRecap_resume_parse:
  "t \<noteq> [] \<Longrightarrow> generateMovieRecap_resume R (Response (Some t)) = JSON_parse R t"
  by (simp add: generateMovieRecap_resume_def)

lemma handleSubmit_failure:
  assumes "title (formData s) \<noteq> []"
    and "generateMovieRecap R api (formData s) = Inl err"
  shows "handleSubmit R api s =
           s\<lparr>status := ERROR,
             error := Some (if message err \<noteq> [] then message err
                            else js ''Failed to generate recap.''),
             requests := requests s @ [generateMovieRecap_request (formData s)]\<rparr>"
  using assms
  by (simp add: handleSubmit_def handleSubmit_begin_def handleSubmit_settle_def
      generateMovieRecap_def)

lemma parse_apology:
  "JSON_parse engine apology = Inl (Thrown SyntaxError (js ''Unexpected token''))"
proof -
  have "apology \<noteq> session_text" "apology \<noteq> stale_text" "apology \<noteq> empty_recap_text"
    "apology \<noteq> inception_recap_text"
    by (simp_all add: apology_def session_text_def stale_text_def empty_recap_text_def
        inception_recap_text_def js_eq_iff)
  then show ?thesis
    by (simp add: engine_def parse_table_def)
qed

lemma parse_empty_recap: "JSON_parse engine empty_recap_text = Inr empty_recap"
proof -
  have "empty_recap_text \<noteq> session_text" "empty_recap_text \<noteq> stale_text"
    by (simp_all add: session_text_def stale_text_def empty_recap_text_def js_eq_iff)
  then show ?thesis
    by (simp add: engine_def parse_table_def)
qed

lemma parse_inception_recap: "JSON_parse engine inception_recap_text = Inr inception_recap"
proof -
  have "inception_recap_text \<noteq> session_text" "inception_recap_text \<noteq> stale_text"
    "inception_recap_text \<noteq> empty_recap_text"
    by (simp_all add: session_text_def stale_text_def empty_recap_text_def
        inception_recap_text_def js_eq_iff)
  then show ?thesis
    by (simp add: engine_def parse_table_def)
qed

lemma ready_facts:
  "title (formData ready) \<noteq> []" "truthy (user ready)" "status ready = IDLE"
  "requests ready = []" "pending ready = 0" "recap ready = JNull"
  by (simp_all add: ready_def restored_def initial_def User_def js_def)

text \<open>
  Claim C4. \<open>generateMovieRecap\<close> fails, the error reaching its caller, whenever the
  response text is \<open>undefined\<close>, empty, or rejected by \<open>JSON.parse\<close>. When it fails
  inside a submission (a non-empty title), \<open>handleSubmit\<close> catches the error: the
  status becomes \<open>ERROR\<close>, the error message is stored, the recap is left as it was,
  and the one request of the submission is the only one sent (no retry, nothing left
  pending).
\<close>

theorem generateMovieRecap_fails:
  "(api (generateMovieRecap_request info) = Response raw \<and>
      (raw = None \<or> raw = Some [] \<or> (\<exists>t err. raw = Some t \<and> JSON_parse R t = Inl err))
    \<longrightarrow> (\<exists>err. generateMovieRecap R api info = Inl err)) \<and>
   (title (formData s) \<noteq> [] \<and> generateMovieRecap R api (formData s) = Inl err
    \<longrightarrow> handleSubmit R api s =
          s\<lparr>status := ERROR,
            error := Some (if message err \<noteq> [] then message err
                           else js ''Failed to generate recap.''),
            requests := requests s @ [generateMovieRecap_request (formData s)]\<rparr>
        \<and> status (handleSubmit R api s) = ERROR
        \<and> recap (handleSubmit R api s) = recap s
        \<and> pending (handleSubmit R api s) = pending s)"
proof (rule conjI)
  show "api (generateMovieRecap_request info) = Response raw \<and>
      (raw = None \<or> raw = Some [] \<or> (\<exists>t err. raw = Some t \<and> JSON_parse R t = Inl err))
    \<longrightarrow> (\<exists>err. generateMovieRecap R api info = Inl err)"
  proof
    assume a: "api (generateMovieRecap_request info) = Response raw \<and>
      (raw = None \<or> raw = Some [] \<or> (\<exists>t err. raw = Some t \<and> JSON_parse R t = Inl err))"
    then consider "raw = None \<or> raw = Some []"
      | t err where "raw = Some t" "t \<noteq> []" "JSON_parse R t = Inl err"
      by blast
    then show "\<exists>err. generateMovieRecap R api info = Inl err"
    proof cases
      case 1
      with a show ?thesis
        by (simp add: generateMovieRecap_def generateMovieRecap_resume_empty)
    next
      case 2
      with a show ?thesis
        by (simp add: generateMovieRecap_def generateMovieRecap_resume_parse)
    qed
  qed
next
  show "title (formData s) \<noteq> [] \<and> generateMovieRecap R api (formData s) = Inl err
    \<longrightarrow> handleSubmit R api s =
          s\<lparr>status := ERROR,
            error := Some (if message err \<noteq> [] then message err
                           else js ''Failed to generate recap.''),
            requests := requests s @ [generateMovieRecap_request (formData s)]\<rparr>
        \<and> status (handleSubmit R api s) = ERROR
        \<and> recap (handleSubmit R api s) = recap s
        \<and> pending (handleSubmit R api s) = pending s"
    by (simp add: handleSubmit_failure)
qed

text \<open>The model answers a submission of "Inception" with a sentence that is not JSON.\<close>

theorem generateMovieRecap_fails_witness:
  "generateMovieRecap engine (\<lambda>req. Response (Some apology)) (formData ready)
     = Inl (Thrown SyntaxError (js ''Unexpected token'')) \<and>
   handleSubmit engine (\<lambda>req. Response (Some apology)) ready =
     ready\<lparr>status := ERROR,
           error := Some (js ''Unexpected token''),
           requests := [generateMovieRecap_request (formData ready)]\<rparr> \<and>
   status (handleSubmit engine (\<lambda>req. Response (Some apology)) ready) = ERROR \<and>
   recap (handleSubmit engine (\<lambda>req. Response (Some apology)) ready) = JNull \<and>
   pending (handleSubmit engine (\<lambda>req. Response (Some apology)) ready) = 0"
proof -
  let ?api = "\<lambda>req :: request. Response (Some apology)"
  have g: "generateMovieRecap engine ?api (formData ready)
      = Inl (Thrown SyntaxError (js ''Unexpected token''))"
    by (simp add: generateMovieRecap_def generateMovieRecap_resume_parse texts_nonempty
        parse_apology)
  have "?api (generateMovieRecap_request (formData ready)) = Response (Some apology) \<and>
      (Some apology = None \<or> Some apology = Some [] \<or>
       (\<exists>t err. Some apology = Some t \<and> JSON_parse engine t = Inl err))"
    using parse_apology by simp
  with generateMovieRecap_fails [of ?api "formData ready" "Some apology" engine]
  have "\<exists>err. generateMovieRecap engine ?api (formData ready) = Inl err"
    by blast
  from generateMovieRecap_fails
    [of ?api "formData ready" "Some apology" engine ready
      "Thrown SyntaxError (js ''Unexpected token'')"]
    ready_facts(1) g
  have "handleSubmit engine ?api ready =
          ready\<lparr>status := ERROR,
            error := Some (if message (Thrown SyntaxError (js ''Unexpected token'')) \<noteq> []
                           then message (Thrown SyntaxError (js ''Unexpected token''))
                           else js ''Failed to generate recap.''),
            requests := requests ready @ [generateMovieRecap_request (formData ready)]\<rparr>
        \<and> status (handleSubmit engine ?api ready) = ERROR
        \<and> recap (handleSubmit engine ?api ready) = recap ready
        \<and> pending (handleSubmit engine ?api ready) = pending ready"
    by blast
  with g show ?thesis
    by (simp add: ready_facts js_def)
qed

lemma conforms_STRING: "conforms (STRING d) j \<longleftrightarrow> is_string j"
  by (cases j) simp_all

lemma conforms_recapSchema:
  assumes "conforms recapSchema v"
  shows "\<exists>tg sm ca kt vd.
           own_property v ''tagline'' = Some (JStr tg) \<and>
           own_property v ''summary'' = Some (JStr sm) \<and>
           own_property v ''characterAnalysis'' = Some (JStr ca) \<and>
           own_property v ''keyTakeaways'' = Some (JArr kt) \<and> list_all is_string kt \<and>
           own_property v ''verdict'' = Some (JStr vd)"
proof (cases v)
  case (JObj members)
  with assms have
      "map_of members (js ''tagline'') \<noteq> None"
      "map_of members (js ''summary'') \<noteq> None"
      "map_of members (js ''characterAnalysis'') \<noteq> None"
      "map_of members (js ''keyTakeaways'') \<noteq> None"
      "map_of members (js ''verdict'') \<noteq> None"
    by (simp_all add: recapSchema_def)
  then obtain a b c d f where vals:
      "map_of members (js ''tagline'') = Some a"
      "map_of members (js ''summary'') = Some b"
      "map_of members (js ''characterAnalysis'') = Some c"
      "map_of members (js ''keyTakeaways'') = Some d"
      "map_of members (js ''verdict'') = Some f"
    by blast
  with assms JObj have typed:
      "is_string a" "is_string b" "is_string c"
      "conforms (ARRAY (STRING None) (Some ''List of important themes or plot devices.'')) d"
      "is_string f"
    by (simp_all add: recapSchema_def conforms_STRING del: conforms.simps(1))
  from typed(4) obtain kt where d: "d = JArr kt" "list_all is_string kt"
    by (cases d) (simp_all add: conforms_STRING [abs_def] del: conforms.simps(1))
  from typed(1,2,3,5) obtain tg sm ca vd
    where "a = JStr tg" "b = JStr sm" "c = JStr ca" "f = JStr vd"
    by (cases a; cases b; cases c; cases f) simp_all
  with vals d JObj show ?thesis by simp
qed (use assms in \<open>simp_all add: recapSchema_def\<close>)

lemma conforms_empty_recap: "conforms recapSchema empty_recap"
  by (simp add: recapSchema_def empty_recap_def js_eq_iff)

lemma conforms_inception_recap: "conforms recapSchema inception_recap"
  by (simp add: recapSchema_def inception_recap_def js_eq_iff)

text \<open>
  Claim C6, as amended. When the external call answers the request (for instance the one
  for "Inception", "Dramatic", no spoilers, "short") with a JSON text whose value matches
  the response schema, \<open>generateMovieRecap\<close> returns that value, and the value holds all
  five fields with the schema's types: \<open>tagline\<close>, \<open>summary\<close>, \<open>characterAnalysis\<close> and
  \<open>verdict\<close> are strings, \<open>keyTakeaways\<close> is a list of strings. Whether the tagline or
  the list is empty is as the response has it: the schema does not ask for either to be
  non-empty and the code checks nothing.
\<close>

theorem generateMovieRecap_conformant:
  assumes "api (generateMovieRecap_request info) = Response (Some t)"
    and "t \<noteq> []"
    and "JSON_parse R t = Inr v"
    and "conforms recapSchema v"
  shows "generateMovieRecap R api info = Inr v \<and>
         (\<exists>tg sm ca kt vd.
            own_property v ''tagline'' = Some (JStr tg) \<and>
            own_property v ''summary'' = Some (JStr sm) \<and>
            own_property v ''characterAnalysis'' = Some (JStr ca) \<and>
            own_property v ''keyTakeaways'' = Some (JArr kt) \<and> list_all is_string kt \<and>
            own_property v ''verdict'' = Some (JStr vd))"
proof
  from assms(1,2,3) show "generateMovieRecap R api info = Inr v"
    by (simp add: generateMovieRecap_def generateMovieRecap_resume_parse)
next
  from assms(4) show "\<exists>tg sm ca kt vd.
            own_property v ''tagline'' = Some (JStr tg) \<and>
            own_property v ''summary'' = Some (JStr sm) \<and>
            own_property v ''characterAnalysis'' = Some (JStr ca) \<and>
            own_property v ''keyTakeaways'' = Some (JArr kt) \<and> list_all is_string kt \<and>
            own_property v ''verdict'' = Some (JStr vd)"
    by (rule conforms_recapSchema)
qed

text \<open>The request of the claim, answered with a populated recap.\<close>

theorem generateMovieRecap_conformant_witness:
  "generateMovieRecap engine (\<lambda>req. Response (Some inception_recap_text)) inception
     = Inr inception_recap \<and>
   own_property inception_recap ''tagline'' = Some (JStr (js ''Dreams within dreams'')) \<and>
   own_property inception_recap ''keyTakeaways'' = Some (JArr [JStr (js ''Reality is fragile'')])"
proof -
  have "(\<lambda>req. Response (Some inception_recap_text)) (generateMovieRecap_request inception)
        = Response (Some inception_recap_text)"
    by simp
  from generateMovieRecap_conformant
    [OF this texts_nonempty(4) parse_inception_recap conforms_inception_recap]
  have "generateMovieRecap engine (\<lambda>req. Response (Some inception_recap_text)) inception
     = Inr inception_recap"
    by (rule conjunct1)
  then show ?thesis
    by (simp add: inception_recap_def js_eq_iff)
qed

text \<open>
  Claim C6 as stated fails: the same request answered with a text that matches the
  schema and holds an empty tagline and an empty list of takeaways yields exactly that
  value.
\<close>

theorem empty_recap_counterexample:
  "conforms recapSchema empty_recap \<and>
   generateMovieRecap engine (\<lambda>req. Response (Some empty_recap_text)) inception
     = Inr empty_recap \<and>
   own_property empty_recap ''tagline'' = Some (JStr []) \<and>
   own_property empty_recap ''keyTakeaways'' = Some (JArr [])"
  using conforms_empty_recap parse_empty_recap texts_nonempty(3)
  by (simp add: generateMovieRecap_def generateMovieRecap_resume_parse empty_recap_def js_eq_iff)

text \<open>
  Claim C10. Submitting the form with an empty title does nothing: \<open>handleSubmit\<close>
  returns the state it was given, so the status, the recap and the error are unchanged
  and no request is sent, whatever the API would answer.
\<close>

theorem handleSubmit_empty_title:
  "title (formData s) = [] \<Longrightarrow>
   handleSubmit R api s = s \<and> handleSubmit_begin s = s \<and> handle v R Submit s = s \<and>
   status (handleSubmit R api s) = status s \<and> recap (handleSubmit R api s) = recap s \<and>
   error (handleSubmit R api s) = error s \<and> requests (handleSubmit R api s) = requests s"
  by (simp add: handleSubmit_def handleSubmit_begin_def)

text \<open>The restored session has not typed a title yet.\<close>

theorem handleSubmit_empty_title_witness:
  "handleSubmit engine (\<lambda>req. Response (Some inception_recap_text)) restored = restored \<and>
   handle Variant1 engine Submit restored = restored \<and>
   requests (handleSubmit engine (\<lambda>req. Response (Some inception_recap_text)) restored) = []"
proof -
  have e: "title (formData restored) = []"
    by (simp add: restored_def initial_def)
  have r: "requests restored = []"
    by (simp add: restored_def initial_def)
  from handleSubmit_empty_title
    [OF e, of engine "\<lambda>req. Response (Some inception_recap_text)" Variant1]
  show ?thesis
    by (simp add: r)
qed

section \<open>The status state machine\<close>













end
